theory Spec2Isabelle
  imports Main "HOL-Library.AList"
begin

section \<open>Values of the Python and Qt runtime\<close>

text \<open>Exceptions, by the place that raises them.\<close>

datatype exn =
    KeyError nat
  | AttributeError
  | TypeError
  | RequestException string
  | JSONDecodeError string
  | OtherException string

text \<open>
  The plugin is dynamically typed. An attribute value, a JSON document and the upload
  payload are all Python objects, modelled by one datatype. A float is opaque: the code
  only passes it on. \<open>PQVariant r\<close> is a QVariant whose \<open>value()\<close> gives \<open>r\<close>, a value
  or an exception; \<open>PToPyObject r\<close> is an object with a \<open>toPyObject\<close> attribute whose
  call gives \<open>r\<close>; \<open>PObject n\<close> is any other object.
\<close>

typedecl pyfloat

datatype qdate = QDate int int int

datatype pyval =
    PNone
  | PBool bool
  | PInt int
  | PFloat pyfloat
  | PStr string
  | PList "pyval list"
  | PDict "(string \<times> pyval) list"
  | PQDate qdate
  | PQVariant "exn + pyval"
  | PToPyObject "exn + pyval"
  | PObject nat

section \<open>Layers, features and HTTP\<close>

text \<open>
  A geometry is read twice by the code: \<open>QgsWkbTypes.displayString(geometry.wkbType())\<close>
  and \<open>json.loads(geometry.asJson())\<close>.
\<close>

record geometry =
  wkb_display :: string
  as_json :: pyval

record feature =
  feat_geometry :: geometry
  feat_attributes :: "pyval list"

text \<open>
  A vector layer: its name, its validity, the names of its fields in order, its features
  by identifier (\<open>getFeature\<close> answers every identifier, with an invalid feature for an
  unknown one) and the custom property \<open>attributeTable/hiddenFields\<close>.
\<close>

record layer =
  layer_name :: string
  isValid :: bool
  layer_fields :: "string list"
  getFeature :: "int \<Rightarrow> feature"
  hidden_fields :: "string list"

datatype http_method = GET | POST

record request =
  req_method :: http_method
  req_url :: string
  req_headers :: "(string \<times> string) list"
  req_data :: "pyval option"

text \<open>A response: its status, its raw bytes and what \<open>response.json()\<close> gives.\<close>

record response =
  status_code :: int
  resp_content :: string
  resp_json :: "exn + pyval"

type_synonym config = "(string \<times> string) list"

text \<open>
  Everything outside the plugin is a parameter: the network, the digest, the OGR
  decoder behind \<open>QgsVectorLayer(path, name, "ogr")\<close>, Python's \<open>str\<close> on a value and
  on an exception, \<open>QDate.toString\<close>, the order in which a set of identifiers is
  iterated (Python leaves it unspecified) and \<open>json.loads\<close> on the persisted registry.
\<close>

record env =
  http :: "request \<Rightarrow> exn + response"
  md5_hexdigest :: "string \<Rightarrow> string"
  ogr_layer :: "string \<Rightarrow> exn + layer"
  py_str :: "pyval \<Rightarrow> exn + string"
  exn_str :: "exn \<Rightarrow> string"
  qdate_toString :: "qdate \<Rightarrow> string \<Rightarrow> string"
  set_iter :: "int set \<Rightarrow> int list"
  json_loads :: "string \<Rightarrow> exn + (string \<times> config) list"

section \<open>The encoder\<close>

text \<open>
  \<open>convert_variant\<close> (lines 302 to 308). Lines 303 and 304 unwrap one QVariant and then
  one object with \<open>toPyObject\<close>; both calls stand outside the \<open>try\<close>, so an exception
  of either leaves the function. A QDate is formatted; a string, number, boolean or
  None is returned as it is; anything else goes through \<open>str\<close>, whose exception is
  caught.
\<close>

definition unwrap_variant :: "pyval \<Rightarrow> exn + pyval" where
  "unwrap_variant val =
     (case (case val of PQVariant r \<Rightarrow> r | _ \<Rightarrow> Inr val) of
        Inl ex \<Rightarrow> Inl ex
      | Inr val1 \<Rightarrow> (case val1 of PToPyObject r \<Rightarrow> r | _ \<Rightarrow> Inr val1))"

fun is_primitive :: "pyval \<Rightarrow> bool" where
  "is_primitive (PStr s) = True"
| "is_primitive (PInt i) = True"
| "is_primitive (PFloat f) = True"
| "is_primitive (PBool b) = True"
| "is_primitive PNone = True"
| "is_primitive v = False"

fun is_qdate :: "pyval \<Rightarrow> bool" where
  "is_qdate (PQDate d) = True"
| "is_qdate v = False"

fun is_qvariant :: "pyval \<Rightarrow> bool" where
  "is_qvariant (PQVariant r) = True"
| "is_qvariant v = False"

fun has_toPyObject :: "pyval \<Rightarrow> bool" where
  "has_toPyObject (PToPyObject r) = True"
| "has_toPyObject v = False"

definition convert_variant :: "env \<Rightarrow> pyval \<Rightarrow> exn + pyval" where
  "convert_variant e val =
     (case unwrap_variant val of
        Inl ex \<Rightarrow> Inl ex
      | Inr v \<Rightarrow>
          (case v of
             PQDate d \<Rightarrow> Inr (PStr (qdate_toString e d ''yyyy-MM-dd''))
           | _ \<Rightarrow>
             if is_primitive v then Inr v
             else (case py_str e v of Inr t \<Rightarrow> Inr (PStr t) | Inl ex \<Rightarrow> Inr PNone)))"

text \<open>
  What the last two lines of \<open>convert_variant\<close> make of a value: its \<open>str\<close> as a
  string, or None when \<open>str\<close> raises.
\<close>

definition stringified :: "env \<Rightarrow> pyval \<Rightarrow> pyval" where
  "stringified e v = (case py_str e v of Inr t \<Rightarrow> PStr t | Inl ex \<Rightarrow> PNone)"

section \<open>The plugin's state\<close>

text \<open>
  The fields of \<open>GeoJsonViewer\<close> that the synchronisation code reads and writes, and
  the parts of the host application it acts on: the project's file name and map layers,
  the slots connected by \<open>connect_sync_signal\<close>, the settings store, the message bar
  and the HTTP requests sent so far. The registry \<open>layers\<close> and the added features are
  dictionaries in insertion order; the edited and deleted identifiers are sets.
\<close>

datatype message = Info string | Success string | Critical string

record viewer =
  layers :: "(string \<times> config) list"
  layer_hashes :: "string \<rightharpoonup> string"
  edited_features :: "int set"
  added_features :: "(int \<times> feature) list"
  deleted_ids :: "int set"
  project_path :: string
  project_layers :: "layer list"
  connections :: "(layer \<times> string \<times> string) list"
  settings :: "string \<rightharpoonup> string"
  messages :: "message list"
  http_log :: "request list"

definition push :: "message \<Rightarrow> viewer \<Rightarrow> viewer" where
  "push m s = s\<lparr>messages := messages s @ [m]\<rparr>"

definition dict_get :: "('k \<times> 'v) list \<Rightarrow> 'k \<Rightarrow> 'v \<Rightarrow> 'v" where
  "dict_get d k dflt = (case map_of d k of Some v \<Rightarrow> v | None \<Rightarrow> dflt)"

definition quoted :: "string \<Rightarrow> string" where
  "quoted name = [CHR 0x27] @ name @ [CHR 0x27]"

fun show_nat :: "nat \<Rightarrow> string" where
  "show_nat n =
     (if n < 10 then [''0123456789'' ! n]
      else show_nat (n div 10) @ [''0123456789'' ! (n mod 10)])"

declare show_nat.simps [simp del]

definition show_int :: "int \<Rightarrow> string" where
  "show_int i = (if i < 0 then CHR ''-'' # show_nat (nat (- i)) else show_nat (nat i))"

section \<open>Fetching and decoding\<close>

text \<open>
  \<open>get_geojson_hash\<close> (lines 262 to 270): \<open>(None, None)\<close> is \<open>None\<close>, a pair of digest
  and content is \<open>Some\<close>. \<open>fetch_request\<close> is the request of lines 264 and 265; it
  is recorded before the network answers.
\<close>

definition fetch_request :: "string \<Rightarrow> string \<Rightarrow> request" where
  "fetch_request url token =
     (let headers = (if token \<noteq> [] then [(''Authorization'', ''Bearer '' @ token)] else [])
      in \<lparr>req_method = GET, req_url = url, req_headers = headers, req_data = None\<rparr>)"

definition get_geojson_hash ::
  "env \<Rightarrow> string \<Rightarrow> string \<Rightarrow> viewer \<Rightarrow> (string \<times> string) option \<times> viewer" where
  "get_geojson_hash e url token s =
     (let rq = fetch_request url token;
          s1 = s\<lparr>http_log := http_log s @ [rq]\<rparr>
      in case http e rq of
           Inl ex \<Rightarrow> (None, s1)
         | Inr r \<Rightarrow>
             if status_code r \<noteq> 200 then (None, s1)
             else (Some (md5_hexdigest e (resp_content r), resp_content r), s1))"

text \<open>
  \<open>create_layer_from_content\<close> (lines 272 to 300). Writing the temporary file and
  opening it with OGR is \<open>ogr_layer\<close>; the layer gets the name it is created with.
\<close>

definition hide_id_fields :: "layer \<Rightarrow> layer" where
  "hide_id_fields l =
     (let hidden = filter (\<lambda>field_name. field_name \<in> set (layer_fields l)) [''id'', ''fid'']
      in if hidden \<noteq> [] then l\<lparr>hidden_fields := hidden\<rparr> else l)"

definition create_layer_from_content ::
  "env \<Rightarrow> string \<Rightarrow> string \<Rightarrow> viewer \<Rightarrow> layer option \<times> viewer" where
  "create_layer_from_content e content name s =
     (case ogr_layer e content of
        Inl ex \<Rightarrow>
          (None, push (Critical (''Error creating layer from content: '' @ exn_str e ex)) s)
      | Inr l0 \<Rightarrow>
          (let l = l0\<lparr>layer_name := name\<rparr>
           in if \<not> isValid l
              then (None, push (Critical (''Layer '' @ quoted name @
                                 '' failed to load from temporary file.'')) s)
              else (Some (hide_id_fields l), s)))"

section \<open>Serialising features\<close>

text \<open>
  \<open>layer.fields().at(i)\<close> raises KeyError for an index that is not a field's.
\<close>

definition field_name_at :: "layer \<Rightarrow> nat \<Rightarrow> exn + string" where
  "field_name_at l i =
     (if i < length (layer_fields l) then Inr (layer_fields l ! i) else Inl (KeyError i))"

text \<open>
  The dictionary comprehension of \<open>_serialize_feature\<close>, over \<open>range(len(props))\<close>.
\<close>

fun properties_loop ::
  "env \<Rightarrow> layer \<Rightarrow> pyval list \<Rightarrow> nat list \<Rightarrow> (string \<times> pyval) list
     \<Rightarrow> exn + (string \<times> pyval) list" where
  "properties_loop e l props [] acc = Inr acc"
| "properties_loop e l props (i # rest) acc =
     (case field_name_at l i of
        Inl ex \<Rightarrow> Inl ex
      | Inr k \<Rightarrow>
          (case convert_variant e (props ! i) of
             Inl ex \<Rightarrow> Inl ex
           | Inr v \<Rightarrow> properties_loop e l props rest (AList.update k v acc)))"

text \<open>\<open>GeoJsonViewer._serialize_feature\<close> (lines 345 to 357).\<close>

definition serialize_feature :: "env \<Rightarrow> layer \<Rightarrow> feature \<Rightarrow> exn + (string \<times> pyval) list" where
  "serialize_feature e l feat =
     (let geom = feat_geometry feat;
          props = feat_attributes feat;
          geom_type = wkb_display geom
      in case properties_loop e l props [0..<length props] [] of
           Inl ex \<Rightarrow> Inl ex
         | Inr properties \<Rightarrow>
             Inr [(''type'', PStr geom_type),
                  (''geometry'', as_json geom),
                  (''properties'', PDict properties)])"

text \<open>\<open>SyncWorker._serialize_feature\<close> (lines 60 to 71), the worker's copy.\<close>

definition worker_serialize_feature ::
  "env \<Rightarrow> layer \<Rightarrow> feature \<Rightarrow> exn + (string \<times> pyval) list" where
  "worker_serialize_feature e l feat =
     (let geom = feat_geometry feat;
          props = feat_attributes feat
      in case properties_loop e l props [0..<length props] [] of
           Inl ex \<Rightarrow> Inl ex
         | Inr properties \<Rightarrow>
             Inr [(''type'', PStr ''Feature''),
                  (''geometry'', as_json geom),
                  (''properties'', PDict properties)])"

section \<open>Uploading\<close>

text \<open>The two loops of \<open>sync_layer_to_server\<close> (lines 318 to 327).\<close>

fun edited_loop :: "env \<Rightarrow> layer \<Rightarrow> int list \<Rightarrow> pyval list \<Rightarrow> exn + pyval list" where
  "edited_loop e l [] features = Inr features"
| "edited_loop e l (fid # fids) features =
     (case serialize_feature e l (getFeature l fid) of
        Inl ex \<Rightarrow> Inl ex
      | Inr feature \<Rightarrow>
          edited_loop e l fids
            (features @ [PDict (AList.update ''__mode'' (PStr ''update'') feature)]))"

fun added_loop ::
  "env \<Rightarrow> layer \<Rightarrow> (int \<times> feature) list \<Rightarrow> pyval list \<Rightarrow> exn + pyval list" where
  "added_loop e l [] features = Inr features"
| "added_loop e l ((fid, feat) # rest) features =
     (case serialize_feature e l feat of
        Inl ex \<Rightarrow> Inl ex
      | Inr feature \<Rightarrow>
          added_loop e l rest
            (features @ [PDict (AList.update ''__mode'' (PStr ''add'') feature)]))"

definition sync_error :: "env \<Rightarrow> exn \<Rightarrow> viewer \<Rightarrow> viewer" where
  "sync_error e ex s = push (Critical (''Sync error: '' @ exn_str e ex)) s"

text \<open>
  Lines 337 and 338: the message of the response, shown as a success. A body that is
  not JSON, a JSON value that is not an object and a message that is not a string each
  raise, and the handler of line 342 reports the exception.
\<close>

definition report_success :: "env \<Rightarrow> response \<Rightarrow> viewer \<Rightarrow> viewer" where
  "report_success e r s =
     (case resp_json r of
        Inl ex \<Rightarrow> sync_error e ex s
      | Inr (PDict d) \<Rightarrow>
          (case dict_get d ''message'' (PStr ''Synced successfully.'') of
             PStr msg \<Rightarrow> push (Success msg) s
           | _ \<Rightarrow> sync_error e TypeError s)
      | Inr _ \<Rightarrow> sync_error e AttributeError s)"

text \<open>Lines 329 to 331: the request handed to \<open>requests.post\<close>.\<close>

definition upload_request :: "string \<Rightarrow> string \<Rightarrow> pyval list \<Rightarrow> request" where
  "upload_request url token features =
     (let payload = PDict [(''type'', PStr ''FeatureCollection''),
                           (''features'', PList features)];
          headers = [(''Authorization'', ''Bearer '' @ token),
                     (''Content-Type'', ''application/json'')]
      in \<lparr>req_method = POST, req_url = url, req_headers = headers,
            req_data = Some payload\<rparr>)"

text \<open>
  \<open>sync_layer_to_server\<close> (lines 310 to 343). Every exception ends in the handler of
  line 342. After a 200 the three collections are cleared before the response body is
  read.
\<close>

definition sync_layer_to_server ::
  "env \<Rightarrow> layer \<Rightarrow> string \<Rightarrow> string \<Rightarrow> viewer \<Rightarrow> viewer" where
  "sync_layer_to_server e l url token s =
     (let changed_ids = edited_features s \<union> set (map fst (added_features s))
      in if changed_ids = {} then push (Info ''No changes to sync.'') s
         else
           case edited_loop e l (set_iter e (edited_features s)) [] of
             Inl ex \<Rightarrow> sync_error e ex s
           | Inr features1 \<Rightarrow>
               (case added_loop e l (added_features s) features1 of
                  Inl ex \<Rightarrow> sync_error e ex s
                | Inr features \<Rightarrow>
                    (let rq = upload_request url token features;
                         s1 = s\<lparr>http_log := http_log s @ [rq]\<rparr>
                     in case http e rq of
                          Inl ex \<Rightarrow> sync_error e ex s1
                        | Inr r \<Rightarrow>
                            if status_code r = 200 then
                              report_success e r
                                (s1\<lparr>edited_features := {}, added_features := [],
                                     deleted_ids := {}\<rparr>)
                            else push (Critical (''Sync failed: '' @ show_int (status_code r))) s1)))"

section \<open>Change tracking\<close>

text \<open>
  \<open>connect_sync_signal\<close> (lines 255 to 260) connects five slots to a layer's signals.
  The connection is recorded in the state; \<open>sync_slot\<close> is what the slots connected for
  a layer do when that layer emits a signal. The layer given to \<open>sync_slot\<close> is the
  connected layer as it is when the signal arrives.
\<close>

datatype signal =
    FeatureAdded int
  | FeatureDeleted int
  | GeometryChanged int geometry
  | AttributeValueChanged int nat pyval
  | EditingStopped

definition connect_sync_signal :: "layer \<Rightarrow> string \<Rightarrow> string \<Rightarrow> viewer \<Rightarrow> viewer" where
  "connect_sync_signal l url token s = s\<lparr>connections := connections s @ [(l, url, token)]\<rparr>"

fun sync_slot :: "env \<Rightarrow> layer \<Rightarrow> string \<Rightarrow> string \<Rightarrow> signal \<Rightarrow> viewer \<Rightarrow> viewer" where
  "sync_slot e l url token (FeatureAdded fid) s =
     s\<lparr>added_features := AList.update fid (getFeature l fid) (added_features s)\<rparr>"
| "sync_slot e l url token (FeatureDeleted fid) s =
     s\<lparr>deleted_ids := insert fid (deleted_ids s)\<rparr>"
| "sync_slot e l url token (GeometryChanged fid geom) s =
     s\<lparr>edited_features := insert fid (edited_features s)\<rparr>"
| "sync_slot e l url token (AttributeValueChanged fid idx val) s =
     s\<lparr>edited_features := insert fid (edited_features s)\<rparr>"
| "sync_slot e l url token EditingStopped s = sync_layer_to_server e l url token s"

section \<open>Polling\<close>

definition layer_present :: "string \<Rightarrow> viewer \<Rightarrow> bool" where
  "layer_present name s = (name \<in> set (map layer_name (project_layers s)))"

text \<open>The loop of lines 244 to 247: the first layer of that name is removed.\<close>

fun remove_named :: "string \<Rightarrow> layer list \<Rightarrow> layer list" where
  "remove_named name [] = []"
| "remove_named name (lyr # rest) =
     (if layer_name lyr = name then rest else lyr # remove_named name rest)"

text \<open>\<open>reload_layer\<close> (lines 230 to 253).\<close>

definition reload_layer :: "env \<Rightarrow> string \<Rightarrow> string \<Rightarrow> string \<Rightarrow> viewer \<Rightarrow> viewer" where
  "reload_layer e name url token s =
     (case get_geojson_hash e url token s of
        (None, s1) \<Rightarrow>
          push (Critical (''Failed to check updates for layer '' @ quoted name @ ''.'')) s1
      | (Some (hash_val, content), s1) \<Rightarrow>
          (let present = layer_present name s1
           in if present \<and> layer_hashes s1 name = Some hash_val
              then push (Info (''Layer '' @ quoted name @ '' no changes found.'')) s1
              else
                case create_layer_from_content e content name s1 of
                  (Some l, s2) \<Rightarrow>
                    if isValid l then
                      (let s3 = (if present
                                 then s2\<lparr>project_layers := remove_named name (project_layers s2)\<rparr>
                                 else s2);
                           s4 = s3\<lparr>project_layers := project_layers s3 @ [l]\<rparr>;
                           s5 = connect_sync_signal l url token s4;
                           s6 = s5\<lparr>layer_hashes := (layer_hashes s5)(name \<mapsto> hash_val)\<rparr>
                       in push (Info (''Layer '' @ quoted name @ '' updated.'')) s6)
                    else push (Critical (''Failed to reload layer '' @ quoted name @ ''.'')) s2
                | (None, s2) \<Rightarrow>
                    push (Critical (''Failed to reload layer '' @ quoted name @ ''.'')) s2))"

text \<open>\<open>refresh_layers\<close> (lines 366 to 368), the timer's sweep over the registry.\<close>

fun refresh_loop :: "env \<Rightarrow> (string \<times> config) list \<Rightarrow> viewer \<Rightarrow> viewer" where
  "refresh_loop e [] s = s"
| "refresh_loop e ((name, cfg) # rest) s =
     refresh_loop e rest
       (reload_layer e name (dict_get cfg ''url'' []) (dict_get cfg ''token'' []) s)"

definition refresh_layers :: "env \<Rightarrow> viewer \<Rightarrow> viewer" where
  "refresh_layers e s = refresh_loop e (layers s) s"

section \<open>Loading the registry\<close>

text \<open>
  \<open>load_bookmarks\<close> (lines 376 to 395). \<open>load_entry\<close> is the body of its loop and
  \<open>stored_bookmarks\<close> the text read from the settings in line 380. The
  registry read back has the shape the plugin saves, a name with a dictionary of
  strings; \<open>json_loads\<close> fails on a stored text that is not JSON.
\<close>

definition load_entry :: "env \<Rightarrow> string \<Rightarrow> config \<Rightarrow> viewer \<Rightarrow> viewer" where
  "load_entry e name cfg s =
     (let url = dict_get cfg ''url'' [];
          token = dict_get cfg ''token'' []
      in case get_geojson_hash e url token s of
           (None, s1) \<Rightarrow> s1
         | (Some (hash_val, content), s1) \<Rightarrow>
             if hash_val \<noteq> [] \<and> content \<noteq> [] then
               (let s2 = s1\<lparr>layer_hashes := (layer_hashes s1)(name \<mapsto> hash_val)\<rparr>
                in case create_layer_from_content e content name s2 of
                     (Some l, s3) \<Rightarrow>
                       if isValid l
                       then connect_sync_signal l url token
                              (s3\<lparr>project_layers := project_layers s3 @ [l]\<rparr>)
                       else s3
                   | (None, s3) \<Rightarrow> s3)
             else s1)"

fun load_loop :: "env \<Rightarrow> (string \<times> config) list \<Rightarrow> viewer \<Rightarrow> viewer" where
  "load_loop e [] s = s"
| "load_loop e ((name, cfg) # rest) s = load_loop e rest (load_entry e name cfg s)"

definition stored_bookmarks :: "viewer \<Rightarrow> string" where
  "stored_bookmarks s =
     (case settings s (''bookmarks/'' @ project_path s) of Some v \<Rightarrow> v | None \<Rightarrow> ''{}'')"

definition load_bookmarks :: "env \<Rightarrow> viewer \<Rightarrow> viewer" where
  "load_bookmarks e s =
     (if project_path s = [] then s
      else
        case json_loads e (stored_bookmarks s) of
          Inl ex \<Rightarrow>
            (push (Critical (''Failed to load bookmarks: '' @ exn_str e ex)) s)\<lparr>layers := []\<rparr>
        | Inr entries \<Rightarrow> load_loop e entries (s\<lparr>layers := entries\<rparr>))"

section \<open>The tracked diff and a small world\<close>

text \<open>The three collections that make up the tracked diff.\<close>

definition diff_of :: "viewer \<Rightarrow> int set \<times> (int \<times> feature) list \<times> int set" where
  "diff_of s = (edited_features s, added_features s, deleted_ids s)"

text \<open>The state \<open>__init__\<close> builds (lines 85 to 92), in a project saved as a file.\<close>

definition init_viewer :: viewer where
  "init_viewer =
     \<lparr>layers = [], layer_hashes = Map.empty, edited_features = {}, added_features = [],
      deleted_ids = {}, project_path = ''/home/p.qgz'', project_layers = [],
      connections = [], settings = Map.empty, messages = [], http_log = []\<rparr>"

text \<open>
  Concrete values on which the results below are run: a point feature named by its one
  attribute, a layer \<open>lakes f\<close> whose feature 42 is \<open>f\<close>, a second layer, two
  responses, and a world around a given network in which \<open>QDate.toString\<close> writes
  the year in four digits, the month and the day in two.
\<close>

definition point_geometry :: geometry where
  "point_geometry =
     \<lparr>wkb_display = ''Point'',
      as_json = PDict [(''type'', PStr ''Point''), (''coordinates'', PList [PInt 1, PInt 2])]\<rparr>"

definition named_point :: "string \<Rightarrow> feature" where
  "named_point n = \<lparr>feat_geometry = point_geometry, feat_attributes = [PStr n]\<rparr>"

definition invalid_feature :: feature where
  "invalid_feature =
     \<lparr>feat_geometry = \<lparr>wkb_display = ''Unknown'', as_json = PNone\<rparr>, feat_attributes = []\<rparr>"

definition lakes :: "feature \<Rightarrow> layer" where
  "lakes f =
     \<lparr>layer_name = ''lakes'', isValid = True, layer_fields = [''name''],
      getFeature = (\<lambda>fid. if fid = 42 then f else invalid_feature), hidden_fields = []\<rparr>"

definition rivers :: layer where
  "rivers =
     \<lparr>layer_name = ''rivers'', isValid = True, layer_fields = [''name''],
      getFeature = (\<lambda>fid. if fid = 7 then named_point ''River X'' else invalid_feature),
      hidden_fields = []\<rparr>"

definition ok_response :: "string \<Rightarrow> response" where
  "ok_response content =
     \<lparr>status_code = 200, resp_content = content,
      resp_json = Inr (PDict [(''message'', PStr ''ok'')])\<rparr>"

definition error_response :: response where
  "error_response =
     \<lparr>status_code = 500, resp_content = [], resp_json = Inl (JSONDecodeError ''no body'')\<rparr>"

definition zero_pad :: "nat \<Rightarrow> nat \<Rightarrow> string" where
  "zero_pad width n = replicate (width - length (show_nat n)) (CHR ''0'') @ show_nat n"

definition iso_date :: "qdate \<Rightarrow> string" where
  "iso_date d =
     (case d of QDate y m dd \<Rightarrow>
        zero_pad 4 (nat y) @ ''-'' @ zero_pad 2 (nat m) @ ''-'' @ zero_pad 2 (nat dd))"

definition world :: "(request \<Rightarrow> exn + response) \<Rightarrow> env" where
  "world net =
     \<lparr>http = net,
      md5_hexdigest = (\<lambda>content. ''md5:'' @ content),
      ogr_layer = (\<lambda>content. if content = ''garbage'' then Inl (OtherException ''ogr'')
                              else Inr (rivers\<lparr>isValid := (content \<noteq> ''empty'')\<rparr>)),
      py_str = (\<lambda>v. if v = PObject 0 then Inl (OtherException ''str'') else Inr ''object''),
      exn_str = (\<lambda>ex. ''error''),
      qdate_toString = (\<lambda>d fmt. if fmt = ''yyyy-MM-dd'' then iso_date d else []),
      set_iter = sorted_list_of_set,
      json_loads = (\<lambda>txt. if txt = ''{}'' then Inr []
                           else Inr [(''broken'', [(''url'', ''https://x/broken.json'')]),
                                     (''rivers'', [(''url'', ''https://x/rivers.json''),
                                                   (''token'', ''t0k'')])])\<rparr>"

text \<open>
  The scenario of one added feature: identifier 42, named Lake A, not yet uploaded, and
  the entry an upload makes of a point with a given name and mode.
\<close>

definition added_lake :: viewer where
  "added_lake = init_viewer\<lparr>added_features := [(42, named_point ''Lake A'')]\<rparr>"

definition point_entry :: "string \<Rightarrow> string \<Rightarrow> pyval" where
  "point_entry n mode =
     PDict [(''type'', PStr ''Point''),
            (''geometry'', PDict [(''type'', PStr ''Point''),
                                  (''coordinates'', PList [PInt 1, PInt 2])]),
            (''properties'', PDict [(''name'', PStr n)]),
            (''__mode'', PStr mode)]"

text \<open>
  A registry with the one dataset \<open>rivers\<close>, whose last known digest is \<open>h\<close>, and no
  layer in the project.
\<close>

definition registered_rivers :: "string \<Rightarrow> viewer" where
  "registered_rivers h =
     init_viewer\<lparr>layers := [(''rivers'', [(''url'', ''https://x/rivers.json'')])],
                 layer_hashes := [''rivers'' \<mapsto> h]\<rparr>"

section \<open>Sequences of notifications\<close>

text \<open>
  \<open>edited_id\<close> is the identifier a geometry or attribute notification is about.
  \<open>deliver\<close> runs the slots on a sequence of notifications, each with the layer as it
  is at that moment; \<open>add_then_edit\<close> is an add notification for an identifier followed
  by such a sequence. \<open>tagged\<close> is what either loop of the upload appends for a feature:
  its serialisation with the mode set. \<open>entry_request\<close> is the request the loading loop
  sends for a registry entry.
\<close>

fun edited_id :: "signal \<Rightarrow> int option" where
  "edited_id (GeometryChanged fid geom) = Some fid"
| "edited_id (AttributeValueChanged fid idx val) = Some fid"
| "edited_id sg = None"

fun deliver :: "env \<Rightarrow> string \<Rightarrow> string \<Rightarrow> (layer \<times> signal) list \<Rightarrow> viewer \<Rightarrow> viewer" where
  "deliver e url token [] s = s"
| "deliver e url token ((l, sg) # rest) s = deliver e url token rest (sync_slot e l url token sg s)"

definition add_then_edit ::
  "env \<Rightarrow> string \<Rightarrow> string \<Rightarrow> layer \<Rightarrow> int \<Rightarrow> (layer \<times> signal) list \<Rightarrow> viewer \<Rightarrow> viewer" where
  "add_then_edit e url token l0 fid evs s =
     deliver e url token evs (sync_slot e l0 url token (FeatureAdded fid) s)"

definition tagged :: "string \<Rightarrow> exn + (string \<times> pyval) list \<Rightarrow> exn + pyval" where
  "tagged mode r =
     (case r of Inl ex \<Rightarrow> Inl ex
      | Inr d \<Rightarrow> Inr (PDict (AList.update ''__mode'' (PStr mode) d)))"

definition entry_request :: "string \<times> config \<Rightarrow> request" where
  "entry_request entry =
     fetch_request (dict_get (snd entry) ''url'' []) (dict_get (snd entry) ''token'' [])"

text \<open>
  Further scenarios: identifier 42 added as Lake A and then renamed Lake B; an edit of
  feature 7 and a deletion of feature 5 notified by the layer \<open>rivers\<close>; a sequence of
  notifications of three kinds after the add of 42 and the state they lead to; the entry
  an upload makes of an invalid feature; a state with all three collections of the diff
  in use;
  a response with status 200 whose body is not JSON; a network on which only the rivers
  resource answers; a project with a saved registry.
\<close>

definition renamed_lake :: viewer where
  "renamed_lake =
     add_then_edit (world (\<lambda>rq. Inr (ok_response []))) ''https://x/lakes'' ''t0k''
       (lakes (named_point ''Lake A'')) 42
       [(lakes (named_point ''Lake B''), AttributeValueChanged 42 0 (PStr ''Lake B''))]
       init_viewer"


definition later_events :: "(layer \<times> signal) list" where
  "later_events =
     [(lakes (named_point ''Lake A''), FeatureAdded 43),
      (lakes (named_point ''Lake B''), AttributeValueChanged 42 0 (PStr ''Lake B'')),
      (lakes (named_point ''Lake B''), FeatureDeleted 9)]"

definition later_lake :: viewer where
  "later_lake =
     add_then_edit (world (\<lambda>rq. Inr (ok_response []))) ''https://x/lakes'' ''t0k''
       (lakes (named_point ''Lake A'')) 42 later_events init_viewer"

definition invalid_entry :: "string \<Rightarrow> pyval" where
  "invalid_entry mode =
     PDict [(''type'', PStr ''Unknown''), (''geometry'', PNone), (''properties'', PDict []),
            (''__mode'', PStr mode)]"

definition busy_lake :: viewer where
  "busy_lake =
     init_viewer\<lparr>edited_features := {42}, added_features := [(43, named_point ''Lake A'')],
                 deleted_ids := {5}\<rparr>"

definition html_response :: response where
  "html_response =
     \<lparr>status_code = 200, resp_content = ''<html>'',
      resp_json = Inl (JSONDecodeError ''not JSON'')\<rparr>"

definition flaky_net :: "request \<Rightarrow> exn + response" where
  "flaky_net rq =
     (if req_url rq = ''https://x/rivers.json'' then Inr (ok_response ''v1'')
      else Inl (RequestException ''down''))"

definition saved_project :: viewer where
  "saved_project = init_viewer\<lparr>settings := [''bookmarks//home/p.qgz'' \<mapsto> ''saved'']\<rparr>"

section \<open>Results\<close>

subsection \<open>Shape of an upload\<close>

lemma report_success_push: "\<exists>m. report_success e r s = push m s"
  unfolding report_success_def sync_error_def
  by (simp split: sum.split pyval.split) blast

lemma properties_named_point:
  "properties_loop (world net) (lakes f) [PStr n] [0..<length [PStr n]] [] = Inr [(''name'', PStr n)]"
  by (simp add: field_name_at_def lakes_def convert_variant_def unwrap_variant_def)

lemma serialize_named_point:
  "serialize_feature (world net) (lakes f) (named_point n) =
     Inr [(''type'', PStr ''Point''),
          (''geometry'', PDict [(''type'', PStr ''Point''), (''coordinates'', PList [PInt 1, PInt 2])]),
          (''properties'', PDict [(''name'', PStr n)])]"
  using properties_named_point [of net f n]
  by (simp add: serialize_feature_def named_point_def point_geometry_def)

lemma getFeature_lakes: "getFeature (lakes f) 42 = f"
  by (simp add: lakes_def)

lemma serialize_invalid_feature:
  "serialize_feature e l invalid_feature =
     Inr [(''type'', PStr ''Unknown''), (''geometry'', PNone), (''properties'', PDict [])]"
  by (simp add: serialize_feature_def invalid_feature_def)

lemma getFeature_lakes_other: "fid \<noteq> 42 \<Longrightarrow> getFeature (lakes f) fid = invalid_feature"
  by (simp add: lakes_def)

lemma world_simps:
  "http (world net) = net"
  "exn_str (world net) ex = ''error''"
  "set_iter (world net) = sorted_list_of_set"
  by (simp_all add: world_def)

lemma sync_added_lake:
  "sync_layer_to_server (world net) (lakes f) url token added_lake =
     (let rq = upload_request url token [point_entry ''Lake A'' ''add''];
          s1 = added_lake\<lparr>http_log := [rq]\<rparr>
      in case net rq of
           Inl ex \<Rightarrow> sync_error (world net) ex s1
         | Inr r \<Rightarrow>
             if status_code r = 200
             then report_success (world net) r
                    (s1\<lparr>edited_features := {}, added_features := [], deleted_ids := {}\<rparr>)
             else push (Critical (''Sync failed: '' @ show_int (status_code r))) s1)"
  by (simp add: sync_layer_to_server_def added_lake_def init_viewer_def serialize_named_point
        world_simps point_entry_def)

lemma sync_added_lake_ok:
  "sync_layer_to_server (world (\<lambda>rq. Inr (ok_response []))) (lakes f) url token added_lake =
     init_viewer\<lparr>http_log := [upload_request url token [point_entry ''Lake A'' ''add'']], messages := [Success ''ok'']\<rparr>"
  unfolding sync_added_lake
  by (simp add: report_success_def ok_response_def dict_get_def push_def
        added_lake_def init_viewer_def)

subsection \<open>The encoder\<close>

lemma convert_variant_unwrapped:
  "unwrap_variant val = Inr v \<Longrightarrow>
     convert_variant e val =
       (if is_qdate v then (case v of PQDate d \<Rightarrow> Inr (PStr (qdate_toString e d ''yyyy-MM-dd'')) | _ \<Rightarrow> Inr v)
        else if is_primitive v then Inr v else Inr (stringified e v))"
  by (cases v) (simp_all add: convert_variant_def stringified_def split: sum.split)

lemma iso_date_example: "iso_date (QDate 2024 1 31) = ''2024-01-31''"
  by code_simp

text \<open>
  C4, amended. A string, boolean, number or None is returned unchanged, a date as the
  string \<open>QDate.toString\<close> gives for the format \<open>yyyy-MM-dd\<close>, any other value as its
  \<open>str\<close>, and as None when \<open>str\<close> raises; the same holds for such a value inside a
  QVariant, inside an object with \<open>toPyObject\<close>, and inside both. The coercion fails
  exactly when \<open>value()\<close> of the QVariant or \<open>toPyObject()\<close> raises, with that
  exception.
\<close>

theorem convert_variant_cases:
  "(is_primitive v \<longrightarrow>
      convert_variant e v = Inr v \<and>
      convert_variant e (PQVariant (Inr v)) = Inr v \<and>
      convert_variant e (PToPyObject (Inr v)) = Inr v \<and>
      convert_variant e (PQVariant (Inr (PToPyObject (Inr v)))) = Inr v) \<and>
   convert_variant e (PQDate d) = Inr (PStr (qdate_toString e d ''yyyy-MM-dd'')) \<and>
   convert_variant e (PQVariant (Inr (PQDate d))) =
     Inr (PStr (qdate_toString e d ''yyyy-MM-dd'')) \<and>
   convert_variant e (PToPyObject (Inr (PQDate d))) =
     Inr (PStr (qdate_toString e d ''yyyy-MM-dd'')) \<and>
   convert_variant e (PQVariant (Inr (PToPyObject (Inr (PQDate d))))) =
     Inr (PStr (qdate_toString e d ''yyyy-MM-dd'')) \<and>
   (\<not> is_primitive v \<longrightarrow> \<not> is_qdate v \<longrightarrow>
      (\<not> is_qvariant v \<longrightarrow> \<not> has_toPyObject v \<longrightarrow>
         convert_variant e v = Inr (stringified e v)) \<and>
      (\<not> has_toPyObject v \<longrightarrow>
         convert_variant e (PQVariant (Inr v)) = Inr (stringified e v)) \<and>
      convert_variant e (PToPyObject (Inr v)) = Inr (stringified e v) \<and>
      convert_variant e (PQVariant (Inr (PToPyObject (Inr v)))) = Inr (stringified e v)) \<and>
   (\<forall>t. py_str e v = Inr t \<longrightarrow> stringified e v = PStr t) \<and>
   (\<forall>ex. py_str e v = Inl ex \<longrightarrow> stringified e v = PNone) \<and>
   convert_variant e (PQVariant (Inl ex)) = Inl ex \<and>
   convert_variant e (PToPyObject (Inl ex)) = Inl ex \<and>
   convert_variant e (PQVariant (Inr (PToPyObject (Inl ex)))) = Inl ex \<and>
   ((\<exists>ex. convert_variant e val = Inl ex) \<longleftrightarrow>
    (\<exists>ex. val = PQVariant (Inl ex) \<or> val = PToPyObject (Inl ex) \<or>
          val = PQVariant (Inr (PToPyObject (Inl ex)))))"
proof -
  have prim: "is_primitive v \<longrightarrow>
      convert_variant e v = Inr v \<and>
      convert_variant e (PQVariant (Inr v)) = Inr v \<and>
      convert_variant e (PToPyObject (Inr v)) = Inr v \<and>
      convert_variant e (PQVariant (Inr (PToPyObject (Inr v)))) = Inr v"
    by (cases v) (simp_all add: convert_variant_def unwrap_variant_def)
  have date: "convert_variant e (PQDate d) = Inr (PStr (qdate_toString e d ''yyyy-MM-dd''))"
    "convert_variant e (PQVariant (Inr (PQDate d))) =
       Inr (PStr (qdate_toString e d ''yyyy-MM-dd''))"
    "convert_variant e (PToPyObject (Inr (PQDate d))) =
       Inr (PStr (qdate_toString e d ''yyyy-MM-dd''))"
    "convert_variant e (PQVariant (Inr (PToPyObject (Inr (PQDate d))))) =
       Inr (PStr (qdate_toString e d ''yyyy-MM-dd''))"
    by (simp_all add: convert_variant_def unwrap_variant_def)
  have other: "\<not> is_primitive v \<longrightarrow> \<not> is_qdate v \<longrightarrow>
      (\<not> is_qvariant v \<longrightarrow> \<not> has_toPyObject v \<longrightarrow>
         convert_variant e v = Inr (stringified e v)) \<and>
      (\<not> has_toPyObject v \<longrightarrow>
         convert_variant e (PQVariant (Inr v)) = Inr (stringified e v)) \<and>
      convert_variant e (PToPyObject (Inr v)) = Inr (stringified e v) \<and>
      convert_variant e (PQVariant (Inr (PToPyObject (Inr v)))) = Inr (stringified e v)"
    by (cases v) (simp_all add: convert_variant_def unwrap_variant_def stringified_def split: sum.split)
  have str: "(\<forall>t. py_str e v = Inr t \<longrightarrow> stringified e v = PStr t) \<and>
             (\<forall>ex. py_str e v = Inl ex \<longrightarrow> stringified e v = PNone)"
    by (simp add: stringified_def)
  have fail: "convert_variant e (PQVariant (Inl ex)) = Inl ex"
    "convert_variant e (PToPyObject (Inl ex)) = Inl ex"
    "convert_variant e (PQVariant (Inr (PToPyObject (Inl ex)))) = Inl ex"
    by (simp_all add: convert_variant_def unwrap_variant_def)
  have unwrap_fail: "(\<exists>ex. unwrap_variant val = Inl ex) \<longleftrightarrow>
    (\<exists>ex. val = PQVariant (Inl ex) \<or> val = PToPyObject (Inl ex) \<or>
          val = PQVariant (Inr (PToPyObject (Inl ex))))"
    by (auto simp: unwrap_variant_def split: pyval.splits sum.splits)
  have "(\<exists>ex. convert_variant e val = Inl ex) \<longleftrightarrow> (\<exists>ex. unwrap_variant val = Inl ex)"
  proof (cases "unwrap_variant val")
    case (Inl ex)
    then show ?thesis by (simp add: convert_variant_def)
  next
    case (Inr u)
    then show ?thesis
      by (simp add: convert_variant_unwrapped split: pyval.split)
  qed
  with unwrap_fail have only: "(\<exists>ex. convert_variant e val = Inl ex) \<longleftrightarrow>
    (\<exists>ex. val = PQVariant (Inl ex) \<or> val = PToPyObject (Inl ex) \<or>
          val = PQVariant (Inr (PToPyObject (Inl ex))))"
    by simp
  from prim date other str fail only show ?thesis by blast
qed


theorem convert_variant_cases_witness:
  "is_primitive (PStr ''Lake A'') \<and>
   convert_variant (world (\<lambda>rq. Inr error_response)) (PStr ''Lake A'') = Inr (PStr ''Lake A'') \<and>
   convert_variant (world (\<lambda>rq. Inr error_response)) (PQVariant (Inr (PStr ''Lake A'')))
     = Inr (PStr ''Lake A'') \<and>
   convert_variant (world (\<lambda>rq. Inr error_response)) (PQVariant (Inr PNone)) = Inr PNone \<and>
   convert_variant (world (\<lambda>rq. Inr error_response)) (PQVariant (Inr (PQDate (QDate 2024 1 31))))
     = Inr (PStr ''2024-01-31'') \<and>
   \<not> is_primitive (PObject 0) \<and> \<not> is_qdate (PObject 0) \<and>
   \<not> is_qvariant (PObject 0) \<and> \<not> has_toPyObject (PObject 0) \<and>
   py_str (world (\<lambda>rq. Inr error_response)) (PObject 0) = Inl (OtherException ''str'') \<and>
   convert_variant (world (\<lambda>rq. Inr error_response)) (PObject 0) = Inr PNone \<and>
   convert_variant (world (\<lambda>rq. Inr error_response)) (PQVariant (Inr (PObject 0))) = Inr PNone \<and>
   \<not> is_primitive (PList []) \<and> \<not> is_qdate (PList []) \<and>
   \<not> is_qvariant (PList []) \<and> \<not> has_toPyObject (PList []) \<and>
   py_str (world (\<lambda>rq. Inr error_response)) (PList []) = Inr ''object'' \<and>
   convert_variant (world (\<lambda>rq. Inr error_response)) (PList []) = Inr (PStr ''object'') \<and>
   convert_variant (world (\<lambda>rq. Inr error_response))
       (PQVariant (Inl (OtherException ''RuntimeError'')))
     = Inl (OtherException ''RuntimeError'')"
  using convert_variant_cases
          [where v = "PStr ''Lake A''" and e = "world (\<lambda>rq. Inr error_response)"
             and d = "QDate 2024 1 31" and ex = "OtherException ''RuntimeError''"
             and val = "PStr ''Lake A''"]
        convert_variant_cases
          [where v = PNone and e = "world (\<lambda>rq. Inr error_response)"
             and d = "QDate 2024 1 31" and ex = "OtherException ''RuntimeError''"
             and val = PNone]
        convert_variant_cases
          [where v = "PObject 0" and e = "world (\<lambda>rq. Inr error_response)"
             and d = "QDate 2024 1 31" and ex = "OtherException ''RuntimeError''"
             and val = "PObject 0"]
        convert_variant_cases
          [where v = "PList []" and e = "world (\<lambda>rq. Inr error_response)"
             and d = "QDate 2024 1 31" and ex = "OtherException ''RuntimeError''"
             and val = "PList []"]
  by (simp add: world_def iso_date_example)

text \<open>
  C4 as stated fails: the coercion is not total. An object whose \<open>toPyObject()\<close> raises
  makes \<open>convert_variant\<close> raise, since line 304 is outside the \<open>try\<close>.
\<close>

theorem convert_variant_raises_counterexample:
  "convert_variant (world (\<lambda>rq. Inr error_response))
       (PToPyObject (Inl (OtherException ''RuntimeError'')))
     = Inl (OtherException ''RuntimeError'')"
  by (simp add: convert_variant_def unwrap_variant_def)

subsection \<open>Uploads\<close>

lemma report_success_frame:
  "edited_features (report_success e r s) = edited_features s"
  "added_features (report_success e r s) = added_features s"
  "deleted_ids (report_success e r s) = deleted_ids s"
  "http_log (report_success e r s) = http_log s"
  using report_success_push [of e r s] by (auto simp: push_def)

lemma sync_posted:
  assumes "edited_features s \<union> set (map fst (added_features s)) \<noteq> {}"
    and "edited_loop e l (set_iter e (edited_features s)) [] = Inr fs1"
    and "added_loop e l (added_features s) fs1 = Inr fs"
  shows "sync_layer_to_server e l url token s =
           (case http e (upload_request url token fs) of
              Inl ex \<Rightarrow> sync_error e ex (s\<lparr>http_log := http_log s @ [upload_request url token fs]\<rparr>)
            | Inr r \<Rightarrow>
                if status_code r = 200
                then report_success e r
                       (s\<lparr>http_log := http_log s @ [upload_request url token fs],
                          edited_features := {}, added_features := [], deleted_ids := {}\<rparr>)
                else push (Critical (''Sync failed: '' @ show_int (status_code r)))
                       (s\<lparr>http_log := http_log s @ [upload_request url token fs]\<rparr>))"
  using assms by (auto simp: sync_layer_to_server_def Let_def)

lemma sync_posted_log:
  assumes "edited_features s \<union> set (map fst (added_features s)) \<noteq> {}"
    and "edited_loop e l (set_iter e (edited_features s)) [] = Inr fs1"
    and "added_loop e l (added_features s) fs1 = Inr fs"
  shows "http_log (sync_layer_to_server e l url token s) =
           http_log s @ [upload_request url token fs]"
  unfolding sync_posted [OF assms]
  by (simp add: report_success_frame sync_error_def push_def split: sum.split)

lemma sync_not_serialised:
  assumes "edited_features s \<union> set (map fst (added_features s)) \<noteq> {}"
    and "edited_loop e l (set_iter e (edited_features s)) [] = Inl ex \<or>
         (\<exists>fs1. edited_loop e l (set_iter e (edited_features s)) [] = Inr fs1 \<and>
                added_loop e l (added_features s) fs1 = Inl ex)"
  shows "sync_layer_to_server e l url token s = sync_error e ex s"
  using assms by (auto simp: sync_layer_to_server_def Let_def)

lemma busy_lake_fields:
  "edited_features busy_lake = {42}"
  "added_features busy_lake = [(43, named_point ''Lake A'')]"
  "deleted_ids busy_lake = {5}"
  "http_log busy_lake = []"
  by (simp_all add: busy_lake_def init_viewer_def)

text \<open>
  C1. An upload with nothing to send, or whose features cannot be serialised, sends no
  request and leaves the diff as it was. Otherwise it posts the one request built from
  the edited and added features. When the answer has status 200 all three collections
  of the diff are empty afterwards, whatever the body of the answer; when the answer
  has another status, or the post raises, the diff is as it was.
\<close>

theorem sync_diff_all_or_nothing:
  "(edited_features s \<union> set (map fst (added_features s)) = {} \<longrightarrow>
      diff_of (sync_layer_to_server e l url token s) = diff_of s \<and>
      http_log (sync_layer_to_server e l url token s) = http_log s) \<and>
   (\<forall>ex. edited_features s \<union> set (map fst (added_features s)) \<noteq> {} \<longrightarrow>
      (edited_loop e l (set_iter e (edited_features s)) [] = Inl ex \<or>
       (\<exists>fs1. edited_loop e l (set_iter e (edited_features s)) [] = Inr fs1 \<and>
              added_loop e l (added_features s) fs1 = Inl ex)) \<longrightarrow>
      diff_of (sync_layer_to_server e l url token s) = diff_of s \<and>
      http_log (sync_layer_to_server e l url token s) = http_log s) \<and>
   (\<forall>fs1 fs. edited_features s \<union> set (map fst (added_features s)) \<noteq> {} \<longrightarrow>
      edited_loop e l (set_iter e (edited_features s)) [] = Inr fs1 \<longrightarrow>
      added_loop e l (added_features s) fs1 = Inr fs \<longrightarrow>
        http_log (sync_layer_to_server e l url token s) =
          http_log s @ [upload_request url token fs] \<and>
        (\<forall>r. http e (upload_request url token fs) = Inr r \<longrightarrow> status_code r = 200 \<longrightarrow>
           diff_of (sync_layer_to_server e l url token s) = ({}, [], {})) \<and>
        (\<forall>r. http e (upload_request url token fs) = Inr r \<longrightarrow> status_code r \<noteq> 200 \<longrightarrow>
           diff_of (sync_layer_to_server e l url token s) = diff_of s) \<and>
        (\<forall>ex. http e (upload_request url token fs) = Inl ex \<longrightarrow>
           diff_of (sync_layer_to_server e l url token s) = diff_of s))"
proof -
  let ?S = "sync_layer_to_server e l url token s"
  have none: "edited_features s \<union> set (map fst (added_features s)) = {} \<longrightarrow>
      diff_of ?S = diff_of s \<and> http_log ?S = http_log s"
    by (simp add: sync_layer_to_server_def push_def diff_of_def)
  have raised: "diff_of ?S = diff_of s \<and> http_log ?S = http_log s"
    if "edited_features s \<union> set (map fst (added_features s)) \<noteq> {}"
      "edited_loop e l (set_iter e (edited_features s)) [] = Inl ex \<or>
       (\<exists>fs1. edited_loop e l (set_iter e (edited_features s)) [] = Inr fs1 \<and>
              added_loop e l (added_features s) fs1 = Inl ex)" for ex
    unfolding sync_not_serialised [OF that]
    by (simp add: sync_error_def push_def diff_of_def)
  have posted: "http_log ?S = http_log s @ [upload_request url token fs] \<and>
        (\<forall>r. http e (upload_request url token fs) = Inr r \<longrightarrow> status_code r = 200 \<longrightarrow>
           diff_of ?S = ({}, [], {})) \<and>
        (\<forall>r. http e (upload_request url token fs) = Inr r \<longrightarrow> status_code r \<noteq> 200 \<longrightarrow>
           diff_of ?S = diff_of s) \<and>
        (\<forall>ex. http e (upload_request url token fs) = Inl ex \<longrightarrow> diff_of ?S = diff_of s)"
    if "edited_features s \<union> set (map fst (added_features s)) \<noteq> {}"
      "edited_loop e l (set_iter e (edited_features s)) [] = Inr fs1"
      "added_loop e l (added_features s) fs1 = Inr fs" for fs1 fs
    using sync_posted_log [OF that, of url token]
    unfolding sync_posted [OF that]
    by (auto simp: report_success_frame sync_error_def push_def diff_of_def)
  from none raised posted show ?thesis by blast
qed


theorem sync_diff_all_or_nothing_witness:
  "edited_features busy_lake \<union> set (map fst (added_features busy_lake)) \<noteq> {} \<and>
   edited_loop (world (\<lambda>rq. Inr (ok_response []))) (lakes (named_point ''Lake B''))
       (set_iter (world (\<lambda>rq. Inr (ok_response []))) (edited_features busy_lake)) []
     = Inr [point_entry ''Lake B'' ''update''] \<and>
   added_loop (world (\<lambda>rq. Inr (ok_response []))) (lakes (named_point ''Lake B''))
       (added_features busy_lake) [point_entry ''Lake B'' ''update'']
     = Inr [point_entry ''Lake B'' ''update'', point_entry ''Lake A'' ''add''] \<and>
   diff_of busy_lake = ({42}, [(43, named_point ''Lake A'')], {5}) \<and>
   status_code (ok_response []) = 200 \<and>
   http_log (sync_layer_to_server (world (\<lambda>rq. Inr (ok_response [])))
       (lakes (named_point ''Lake B'')) ''https://x/lakes'' ''t0k'' busy_lake)
     = [upload_request ''https://x/lakes'' ''t0k''
          [point_entry ''Lake B'' ''update'', point_entry ''Lake A'' ''add'']] \<and>
   diff_of (sync_layer_to_server (world (\<lambda>rq. Inr (ok_response [])))
       (lakes (named_point ''Lake B'')) ''https://x/lakes'' ''t0k'' busy_lake) = ({}, [], {}) \<and>
   status_code html_response = 200 \<and>
   diff_of (sync_layer_to_server (world (\<lambda>rq. Inr html_response))
       (lakes (named_point ''Lake B'')) ''https://x/lakes'' ''t0k'' busy_lake) = ({}, [], {}) \<and>
   status_code error_response = 500 \<and>
   http_log (sync_layer_to_server (world (\<lambda>rq. Inr error_response))
       (lakes (named_point ''Lake B'')) ''https://x/lakes'' ''t0k'' busy_lake)
     = [upload_request ''https://x/lakes'' ''t0k''
          [point_entry ''Lake B'' ''update'', point_entry ''Lake A'' ''add'']] \<and>
   diff_of (sync_layer_to_server (world (\<lambda>rq. Inr error_response))
       (lakes (named_point ''Lake B'')) ''https://x/lakes'' ''t0k'' busy_lake)
     = ({42}, [(43, named_point ''Lake A'')], {5}) \<and>
   diff_of (sync_layer_to_server (world (\<lambda>rq. Inl (RequestException ''timeout'')))
       (lakes (named_point ''Lake B'')) ''https://x/lakes'' ''t0k'' busy_lake)
     = ({42}, [(43, named_point ''Lake A'')], {5})"
  using sync_diff_all_or_nothing
          [where s = busy_lake and e = "world (\<lambda>rq. Inr (ok_response []))"
             and l = "lakes (named_point ''Lake B'')" and url = "''https://x/lakes''"
             and token = "''t0k''"]
        sync_diff_all_or_nothing
          [where s = busy_lake and e = "world (\<lambda>rq. Inr html_response)"
             and l = "lakes (named_point ''Lake B'')" and url = "''https://x/lakes''"
             and token = "''t0k''"]
        sync_diff_all_or_nothing
          [where s = busy_lake and e = "world (\<lambda>rq. Inr error_response)"
             and l = "lakes (named_point ''Lake B'')" and url = "''https://x/lakes''"
             and token = "''t0k''"]
        sync_diff_all_or_nothing
          [where s = busy_lake and e = "world (\<lambda>rq. Inl (RequestException ''timeout''))"
             and l = "lakes (named_point ''Lake B'')" and url = "''https://x/lakes''"
             and token = "''t0k''"]
  by (simp add: busy_lake_fields world_simps getFeature_lakes serialize_named_point
        point_entry_def diff_of_def ok_response_def html_response_def error_response_def)


text \<open>
  C7. When the edited identifiers and the keys of the added features are together empty,
  the upload reports that there is nothing to synchronise and changes nothing else: no
  request is recorded and the state, the deleted identifiers included, stays as it was.
\<close>

theorem sync_no_changes:
  "edited_features s \<union> set (map fst (added_features s)) = {} \<Longrightarrow>
     sync_layer_to_server e l url token s = s\<lparr>messages := messages s @ [Info ''No changes to sync.'']\<rparr>"
  by (simp add: sync_layer_to_server_def push_def)


theorem sync_no_changes_witness:
  "edited_features (init_viewer\<lparr>deleted_ids := {5}\<rparr>) \<union>
     set (map fst (added_features (init_viewer\<lparr>deleted_ids := {5}\<rparr>))) = {} \<and>
   sync_layer_to_server (world (\<lambda>rq. Inr (ok_response []))) rivers ''https://x/rivers'' ''t0k''
       (init_viewer\<lparr>deleted_ids := {5}\<rparr>) =
     init_viewer\<lparr>deleted_ids := {5}, messages := [Info ''No changes to sync.'']\<rparr>"
  using sync_no_changes [of "init_viewer\<lparr>deleted_ids := {5}\<rparr>" "world (\<lambda>rq. Inr (ok_response []))"
          rivers "''https://x/rivers''" "''t0k''"]
  by (simp add: init_viewer_def)

text \<open>
  C6, for the upload. With an empty token the request of the upload still carries an
  Authorization header, with the value \<open>Bearer\<close> followed by a space, while the request
  of a fetch with an empty token carries no header.
\<close>

theorem upload_empty_token_sends_authorization:
  "map req_headers (http_log (sync_layer_to_server (world (\<lambda>rq. Inr (ok_response [])))
        (lakes invalid_feature) ''https://x/lakes'' [] added_lake)) =
     [[(''Authorization'', ''Bearer ''), (''Content-Type'', ''application/json'')]] \<and>
   map req_headers (http_log (snd (get_geojson_hash (world (\<lambda>rq. Inr (ok_response [])))
        ''https://x/lakes'' [] init_viewer))) = [[]]"
  unfolding sync_added_lake_ok
  by (simp add: upload_request_def get_geojson_hash_def fetch_request_def world_simps
        ok_response_def init_viewer_def)

text \<open>
  C3, for the field \<open>type\<close>. The upload of the added feature 42, a point, posts one
  feature collection whose one feature has the type \<open>Point\<close>, the name of its geometry
  type, and the mode \<open>add\<close>. The worker's copy of the serialiser gives the same feature
  the type \<open>Feature\<close>.
\<close>

theorem upload_feature_type_is_geometry_type:
  "map req_data (http_log (sync_layer_to_server (world (\<lambda>rq. Inr (ok_response [])))
        (lakes invalid_feature) ''https://x/lakes'' ''t0k'' added_lake)) =
     [Some (PDict [(''type'', PStr ''FeatureCollection''),
                   (''features'', PList [PDict [(''type'', PStr ''Point''),
                       (''geometry'', PDict [(''type'', PStr ''Point''),
                                             (''coordinates'', PList [PInt 1, PInt 2])]),
                       (''properties'', PDict [(''name'', PStr ''Lake A'')]),
                       (''__mode'', PStr ''add'')]])])] \<and>
   worker_serialize_feature (world (\<lambda>rq. Inr (ok_response []))) (lakes invalid_feature)
        (named_point ''Lake A'') =
     Inr [(''type'', PStr ''Feature''),
          (''geometry'', PDict [(''type'', PStr ''Point''), (''coordinates'', PList [PInt 1, PInt 2])]),
          (''properties'', PDict [(''name'', PStr ''Lake A'')])]"
  unfolding sync_added_lake_ok
  using properties_named_point [of "\<lambda>rq. Inr (ok_response [])" invalid_feature "''Lake A''"]
  by (simp add: upload_request_def point_entry_def worker_serialize_feature_def
        named_point_def point_geometry_def)

subsection \<open>Polling\<close>

lemma get_geojson_hash_snd:
  "snd (get_geojson_hash e url token s) = s\<lparr>http_log := http_log s @ [fetch_request url token]\<rparr>"
  by (simp add: get_geojson_hash_def Let_def split: sum.split)

lemma get_geojson_hash_fst:
  "fst (get_geojson_hash e url token s) =
     (case http e (fetch_request url token) of
        Inl ex \<Rightarrow> None
      | Inr r \<Rightarrow> if status_code r \<noteq> 200 then None
                 else Some (md5_hexdigest e (resp_content r), resp_content r))"
  by (simp add: get_geojson_hash_def Let_def split: sum.split)

lemma isValid_hide_id_fields: "isValid (hide_id_fields l) = isValid l"
  by (simp add: hide_id_fields_def Let_def)

text \<open>
  C2, amended. When the fetch succeeds, the digest of the content is the stored digest of
  the dataset and a layer of that name is in the project, the reload records the request
  and reports that nothing changed; the project's layers, the stored digests, the
  connections and the diff stay as they were.
\<close>

theorem reload_same_hash_present:
  assumes "fst (get_geojson_hash e url token s) = Some (h, content)"
    and "layer_hashes s name = Some h"
    and "layer_present name s"
  shows "reload_layer e name url token s =
           s\<lparr>http_log := http_log s @ [fetch_request url token],
              messages := messages s @ [Info (''Layer '' @ quoted name @ '' no changes found.'')]\<rparr>"
proof -
  have "get_geojson_hash e url token s =
          (Some (h, content), s\<lparr>http_log := http_log s @ [fetch_request url token]\<rparr>)"
    using assms(1) get_geojson_hash_snd [of e url token s]
    by (metis prod.collapse)
  with assms(2,3) show ?thesis
    by (simp add: reload_layer_def layer_present_def push_def)
qed


theorem reload_same_hash_present_witness:
  "fst (get_geojson_hash (world (\<lambda>rq. Inr (ok_response ''v1''))) ''https://x/rivers.json'' []
          ((registered_rivers ''md5:v1'')\<lparr>project_layers := [rivers]\<rparr>)) = Some (''md5:v1'', ''v1'') \<and>
   layer_hashes ((registered_rivers ''md5:v1'')\<lparr>project_layers := [rivers]\<rparr>) ''rivers''
     = Some ''md5:v1'' \<and>
   layer_present ''rivers'' ((registered_rivers ''md5:v1'')\<lparr>project_layers := [rivers]\<rparr>) \<and>
   reload_layer (world (\<lambda>rq. Inr (ok_response ''v1''))) ''rivers'' ''https://x/rivers.json'' []
       ((registered_rivers ''md5:v1'')\<lparr>project_layers := [rivers]\<rparr>) =
     (registered_rivers ''md5:v1'')
       \<lparr>project_layers := [rivers],
        http_log := [fetch_request ''https://x/rivers.json'' []],
        messages := [Info (''Layer '' @ quoted ''rivers'' @ '' no changes found.'')]\<rparr>"
  using reload_same_hash_present [of "world (\<lambda>rq. Inr (ok_response ''v1''))"
          "''https://x/rivers.json''" "[]"
          "(registered_rivers ''md5:v1'')\<lparr>project_layers := [rivers]\<rparr>" "''md5:v1''" "''v1''"
          "''rivers''"]
  by (simp add: get_geojson_hash_fst world_simps world_def ok_response_def registered_rivers_def
        init_viewer_def layer_present_def rivers_def)

text \<open>
  C2 as stated fails when no layer of that name is in the project: with the stored digest
  equal to the fetched one, the reload still adds a layer and reports an update.
\<close>

theorem reload_same_hash_absent_counterexample:
  "fst (get_geojson_hash (world (\<lambda>rq. Inr (ok_response ''v1''))) ''https://x/rivers.json'' []
          (registered_rivers ''md5:v1'')) = Some (''md5:v1'', ''v1'') \<and>
   layer_hashes (registered_rivers ''md5:v1'') ''rivers'' = Some ''md5:v1'' \<and>
   project_layers (registered_rivers ''md5:v1'') = [] \<and>
   map layer_name (project_layers
      (reload_layer (world (\<lambda>rq. Inr (ok_response ''v1''))) ''rivers'' ''https://x/rivers.json'' []
         (registered_rivers ''md5:v1''))) = [''rivers''] \<and>
   messages
      (reload_layer (world (\<lambda>rq. Inr (ok_response ''v1''))) ''rivers'' ''https://x/rivers.json'' []
         (registered_rivers ''md5:v1'')) = [Info (''Layer '' @ quoted ''rivers'' @ '' updated.'')]"
  by (simp add: reload_layer_def get_geojson_hash_def world_def ok_response_def
        registered_rivers_def init_viewer_def layer_present_def create_layer_from_content_def
        rivers_def hide_id_fields_def connect_sync_signal_def push_def)

text \<open>
  C10, amended. With no layer of that name in the project and a successful fetch, the
  reload does not compare digests. When the content decodes to a valid layer the layer is
  added to the project, connected, and the digest stored, whatever digest was stored
  before; when the decoded layer is invalid the project and the digests stay as they
  were and a failure is reported.
\<close>

theorem reload_absent_rebuilds:
  assumes "fst (get_geojson_hash e url token s) = Some (h, content)"
    and "\<not> layer_present name s"
  shows "(\<forall>l0. ogr_layer e content = Inr l0 \<longrightarrow> isValid l0 \<longrightarrow>
            reload_layer e name url token s =
              s\<lparr>http_log := http_log s @ [fetch_request url token],
                 project_layers := project_layers s @ [hide_id_fields (l0\<lparr>layer_name := name\<rparr>)],
                 connections := connections s @
                    [(hide_id_fields (l0\<lparr>layer_name := name\<rparr>), url, token)],
                 layer_hashes := (layer_hashes s)(name \<mapsto> h),
                 messages := messages s @ [Info (''Layer '' @ quoted name @ '' updated.'')]\<rparr>) \<and>
         ((\<forall>l0. ogr_layer e content = Inr l0 \<longrightarrow> \<not> isValid l0) \<longrightarrow>
            project_layers (reload_layer e name url token s) = project_layers s \<and>
            layer_hashes (reload_layer e name url token s) = layer_hashes s \<and>
            last (messages (reload_layer e name url token s)) =
              Critical (''Failed to reload layer '' @ quoted name @ ''.''))"
proof -
  have g: "get_geojson_hash e url token s =
          (Some (h, content), s\<lparr>http_log := http_log s @ [fetch_request url token]\<rparr>)"
    using assms(1) get_geojson_hash_snd [of e url token s]
    by (metis prod.collapse)
  have valid: "reload_layer e name url token s =
              s\<lparr>http_log := http_log s @ [fetch_request url token],
                 project_layers := project_layers s @ [hide_id_fields (l0\<lparr>layer_name := name\<rparr>)],
                 connections := connections s @
                    [(hide_id_fields (l0\<lparr>layer_name := name\<rparr>), url, token)],
                 layer_hashes := (layer_hashes s)(name \<mapsto> h),
                 messages := messages s @ [Info (''Layer '' @ quoted name @ '' updated.'')]\<rparr>"
    if "ogr_layer e content = Inr l0" "isValid l0" for l0
    using that g assms(2)
    by (simp add: reload_layer_def layer_present_def create_layer_from_content_def
          isValid_hide_id_fields connect_sync_signal_def push_def)
  have invalid: "project_layers (reload_layer e name url token s) = project_layers s \<and>
            layer_hashes (reload_layer e name url token s) = layer_hashes s \<and>
            last (messages (reload_layer e name url token s)) =
              Critical (''Failed to reload layer '' @ quoted name @ ''.'')"
    if "\<forall>l0. ogr_layer e content = Inr l0 \<longrightarrow> \<not> isValid l0"
    using that g assms(2)
    by (cases "ogr_layer e content")
       (simp_all add: reload_layer_def layer_present_def create_layer_from_content_def push_def)
  from valid invalid show ?thesis by blast
qed

theorem reload_absent_rebuilds_witness:
  "fst (get_geojson_hash (world (\<lambda>rq. Inr (ok_response ''v2''))) ''https://x/rivers.json'' ''t0k''
          (registered_rivers ''md5:v2'')) = Some (''md5:v2'', ''v2'') \<and>
   \<not> layer_present ''rivers'' (registered_rivers ''md5:v2'') \<and>
   ogr_layer (world (\<lambda>rq. Inr (ok_response ''v2''))) ''v2'' = Inr rivers \<and> isValid rivers \<and>
   reload_layer (world (\<lambda>rq. Inr (ok_response ''v2''))) ''rivers'' ''https://x/rivers.json'' ''t0k''
       (registered_rivers ''md5:v2'') =
     (registered_rivers ''md5:v2'')
       \<lparr>http_log := [fetch_request ''https://x/rivers.json'' ''t0k''],
        project_layers := [rivers],
        connections := [(rivers, ''https://x/rivers.json'', ''t0k'')],
        messages := [Info (''Layer '' @ quoted ''rivers'' @ '' updated.'')]\<rparr> \<and>
   fst (get_geojson_hash (world (\<lambda>rq. Inr (ok_response ''empty''))) ''https://x/rivers.json'' ''t0k''
          (registered_rivers ''md5:empty'')) = Some (''md5:empty'', ''empty'') \<and>
   ogr_layer (world (\<lambda>rq. Inr (ok_response ''empty''))) ''empty'' = Inr (rivers\<lparr>isValid := False\<rparr>) \<and>
   project_layers (reload_layer (world (\<lambda>rq. Inr (ok_response ''empty''))) ''rivers''
       ''https://x/rivers.json'' ''t0k'' (registered_rivers ''md5:empty'')) = []"
  using reload_absent_rebuilds [of "world (\<lambda>rq. Inr (ok_response ''v2''))"
          "''https://x/rivers.json''" "''t0k''" "registered_rivers ''md5:v2''" "''md5:v2''" "''v2''"
          "''rivers''"]
        reload_absent_rebuilds [of "world (\<lambda>rq. Inr (ok_response ''empty''))"
          "''https://x/rivers.json''" "''t0k''" "registered_rivers ''md5:empty''" "''md5:empty''"
          "''empty''" "''rivers''"]
  by (simp add: get_geojson_hash_fst world_def ok_response_def registered_rivers_def
        init_viewer_def layer_present_def rivers_def hide_id_fields_def)

text \<open>
  C10 as stated fails on content that does not decode: the fetch succeeds, no layer is
  present, and nothing is added to the project.
\<close>

theorem reload_absent_invalid_content_counterexample:
  "fst (get_geojson_hash (world (\<lambda>rq. Inr (ok_response ''garbage''))) ''https://x/rivers.json'' []
          (registered_rivers ''md5:garbage'')) = Some (''md5:garbage'', ''garbage'') \<and>
   layer_hashes (registered_rivers ''md5:garbage'') ''rivers'' = Some ''md5:garbage'' \<and>
   \<not> layer_present ''rivers'' (registered_rivers ''md5:garbage'') \<and>
   project_layers
      (reload_layer (world (\<lambda>rq. Inr (ok_response ''garbage''))) ''rivers''
         ''https://x/rivers.json'' [] (registered_rivers ''md5:garbage'')) = [] \<and>
   messages
      (reload_layer (world (\<lambda>rq. Inr (ok_response ''garbage''))) ''rivers''
         ''https://x/rivers.json'' [] (registered_rivers ''md5:garbage'')) =
     [Critical ''Error creating layer from content: error'',
      Critical (''Failed to reload layer '' @ quoted ''rivers'' @ ''.'')]"
  by (simp add: reload_layer_def get_geojson_hash_def world_def ok_response_def
        registered_rivers_def init_viewer_def layer_present_def create_layer_from_content_def
        push_def)

subsection \<open>Change tracking\<close>

lemma added_loop_entries:
  "added_loop e l xs acc = Inr fs \<Longrightarrow>
     \<exists>es. fs = acc @ es \<and>
          map (\<lambda>kf. tagged ''add'' (serialize_feature e l (snd kf))) xs = map Inr es"
proof (induction xs arbitrary: acc)
  case Nil
  then show ?case by simp
next
  case (Cons kf xs)
  obtain k f where kf: "kf = (k, f)" by (cases kf)
  from Cons.prems kf obtain d where d: "serialize_feature e l f = Inr d"
    and rest: "added_loop e l xs (acc @ [PDict (AList.update ''__mode'' (PStr ''add'') d)]) = Inr fs"
    by (auto split: sum.splits)
  from Cons.IH [OF rest] obtain es where
    "fs = (acc @ [PDict (AList.update ''__mode'' (PStr ''add'') d)]) @ es"
    "map (\<lambda>kf. tagged ''add'' (serialize_feature e l (snd kf))) xs = map Inr es"
    by blast
  with d kf show ?case
    by (intro exI [of _ "PDict (AList.update ''__mode'' (PStr ''add'') d) # es"])
       (simp add: tagged_def)
qed

lemma edited_loop_entries:
  "edited_loop e l ks acc = Inr fs \<Longrightarrow>
     \<exists>es. fs = acc @ es \<and>
          map (\<lambda>k. tagged ''update'' (serialize_feature e l (getFeature l k))) ks = map Inr es"
proof (induction ks arbitrary: acc)
  case Nil
  then show ?case by simp
next
  case (Cons k ks)
  from Cons.prems obtain d where d: "serialize_feature e l (getFeature l k) = Inr d"
    and rest: "edited_loop e l ks (acc @ [PDict (AList.update ''__mode'' (PStr ''update'') d)]) = Inr fs"
    by (auto split: sum.splits)
  from Cons.IH [OF rest] obtain es where
    "fs = (acc @ [PDict (AList.update ''__mode'' (PStr ''update'') d)]) @ es"
    "map (\<lambda>k. tagged ''update'' (serialize_feature e l (getFeature l k))) ks = map Inr es"
    by blast
  with d show ?case
    by (intro exI [of _ "PDict (AList.update ''__mode'' (PStr ''update'') d) # es"])
       (simp add: tagged_def)
qed

lemma sync_slot_edit:
  "edited_id sg = Some k \<Longrightarrow>
     sync_slot e l url token sg s = s\<lparr>edited_features := insert k (edited_features s)\<rparr>"
  by (cases sg) simp_all

lemma key_once:
  "distinct (map fst xs) \<Longrightarrow> k \<in> fst ` set xs \<Longrightarrow> length (filter (\<lambda>kf. fst kf = k) xs) = 1"
proof (induction xs)
  case Nil
  then show ?case by simp
next
  case (Cons x xs)
  show ?case
  proof (cases "fst x = k")
    case True
    with Cons.prems have "k \<notin> fst ` set xs" by auto
    then have "filter (\<lambda>kf. fst kf = k) xs = []"
      by (auto simp: filter_empty_conv)
    with True show ?thesis by simp
  next
    case False
    with Cons show ?thesis by auto
  qed
qed


lemma renamed_lake_eq:
  "renamed_lake =
     init_viewer\<lparr>added_features := [(42, named_point ''Lake A'')], edited_features := {42}\<rparr>"
  by (simp add: renamed_lake_def add_then_edit_def lakes_def init_viewer_def)


lemma slot_snapshot:
  "sg \<noteq> EditingStopped \<Longrightarrow> sg \<noteq> FeatureAdded fid \<Longrightarrow>
     map_of (added_features (sync_slot e l url token sg s)) fid = map_of (added_features s) fid"
  by (cases sg) (simp_all add: update_conv')

lemma slot_distinct:
  "sg \<noteq> EditingStopped \<Longrightarrow> distinct (map fst (added_features s)) \<Longrightarrow>
     distinct (map fst (added_features (sync_slot e l url token sg s)))"
  by (cases sg) (simp_all add: distinct_update)

lemma slot_edited_mono:
  "sg \<noteq> EditingStopped \<Longrightarrow>
     edited_features s \<subseteq> edited_features (sync_slot e l url token sg s)"
  by (cases sg) auto

lemma deliver_snapshot:
  "\<forall>ev \<in> set evs. snd ev \<noteq> EditingStopped \<and> snd ev \<noteq> FeatureAdded fid \<Longrightarrow>
     map_of (added_features (deliver e url token evs s)) fid = map_of (added_features s) fid"
proof (induction evs arbitrary: s)
  case Nil
  then show ?case by simp
next
  case (Cons ev evs)
  obtain l sg where ev: "ev = (l, sg)" by (cases ev)
  with Cons.prems have "sg \<noteq> EditingStopped" "sg \<noteq> FeatureAdded fid"
    and rest: "\<forall>ev \<in> set evs. snd ev \<noteq> EditingStopped \<and> snd ev \<noteq> FeatureAdded fid"
    by simp_all
  with Cons.IH [OF rest, of "sync_slot e l url token sg s"] ev show ?case
    by (simp add: slot_snapshot)
qed

lemma deliver_distinct:
  "\<forall>ev \<in> set evs. snd ev \<noteq> EditingStopped \<Longrightarrow> distinct (map fst (added_features s)) \<Longrightarrow>
     distinct (map fst (added_features (deliver e url token evs s)))"
proof (induction evs arbitrary: s)
  case Nil
  then show ?case by simp
next
  case (Cons ev evs)
  obtain l sg where ev: "ev = (l, sg)" by (cases ev)
  with Cons.prems have sg: "sg \<noteq> EditingStopped"
    and rest: "\<forall>ev \<in> set evs. snd ev \<noteq> EditingStopped"
    by simp_all
  from Cons.IH [OF rest slot_distinct [OF sg Cons.prems(2)]] ev show ?case by simp
qed

lemma deliver_edited_mono:
  "\<forall>ev \<in> set evs. snd ev \<noteq> EditingStopped \<Longrightarrow>
     edited_features s \<subseteq> edited_features (deliver e url token evs s)"
proof (induction evs arbitrary: s)
  case Nil
  then show ?case by simp
next
  case (Cons ev evs)
  obtain l sg where ev: "ev = (l, sg)" by (cases ev)
  with Cons.prems have sg: "sg \<noteq> EditingStopped"
    and rest: "\<forall>ev \<in> set evs. snd ev \<noteq> EditingStopped"
    by simp_all
  from Cons.IH [OF rest, of "sync_slot e l url token sg s"]
       slot_edited_mono [OF sg, of s e l url token] ev
  show ?case by auto
qed

lemma deliver_edited_in:
  "\<forall>ev \<in> set evs. snd ev \<noteq> EditingStopped \<Longrightarrow>
   \<exists>ev \<in> set evs. edited_id (snd ev) = Some k \<Longrightarrow>
     k \<in> edited_features (deliver e url token evs s)"
proof (induction evs arbitrary: s)
  case Nil
  then show ?case by simp
next
  case (Cons ev evs)
  obtain l sg where ev: "ev = (l, sg)" by (cases ev)
  from Cons.prems(1) have rest: "\<forall>ev \<in> set evs. snd ev \<noteq> EditingStopped" by simp
  show ?case
  proof (cases "edited_id sg = Some k")
    case True
    then have "k \<in> edited_features (sync_slot e l url token sg s)"
      by (simp add: sync_slot_edit)
    with deliver_edited_mono [OF rest, of "sync_slot e l url token sg s" e url token] ev
    show ?thesis by auto
  next
    case False
    with Cons.prems(2) ev have "\<exists>ev \<in> set evs. edited_id (snd ev) = Some k" by auto
    from Cons.IH [OF rest this] ev show ?thesis by simp
  qed
qed

lemma once_in_distinct: "distinct xs \<Longrightarrow> k \<in> set xs \<Longrightarrow> length (filter (\<lambda>x. x = k) xs) = 1"
  by (induction xs) (auto simp: filter_empty_conv)

lemma later_lake_eq:
  "later_lake =
     init_viewer\<lparr>edited_features := {42},
                 added_features := [(42, named_point ''Lake A''), (43, invalid_feature)],
                 deleted_ids := {9}\<rparr>"
  by (simp add: later_lake_def later_events_def add_then_edit_def getFeature_lakes
        getFeature_lakes_other init_viewer_def)

text \<open>
  C5, amended. An identifier is added and then edited, with any notifications in
  between and after except the end of the edit session and another add of the same
  identifier; the set of edited identifiers is iterated element by element, each once,
  and the features serialise. Then the upload posts one request whose features are the
  entries with mode \<open>update\<close>, one per edited identifier and made of the layer's current
  feature, followed by the entries with mode \<open>add\<close>, one per added identifier and made
  of its snapshot. The identifier is iterated once among the edited ones and is once a
  key of the added ones, its snapshot is the feature as it was when added, and both its
  \<open>update\<close> entry and its \<open>add\<close> entry are in the request.
\<close>

theorem added_then_edited_is_both:
  assumes events: "\<forall>ev \<in> set evs. snd ev \<noteq> EditingStopped \<and> snd ev \<noteq> FeatureAdded fid"
    and edit: "\<exists>ev \<in> set evs. edited_id (snd ev) = Some fid"
    and keys: "distinct (map fst (added_features s))"
    and iter: "set (set_iter e (edited_features (add_then_edit e url token la fid evs s))) =
                 edited_features (add_then_edit e url token la fid evs s)"
              "distinct (set_iter e (edited_features (add_then_edit e url token la fid evs s)))"
    and ups_ok: "edited_loop e l
                    (set_iter e (edited_features (add_then_edit e url token la fid evs s))) []
                  = Inr us"
    and adds_ok: "added_loop e l (added_features (add_then_edit e url token la fid evs s)) us
               = Inr fs"
  shows
    "http_log (sync_layer_to_server e l url' token' (add_then_edit e url token la fid evs s)) =
       http_log (add_then_edit e url token la fid evs s) @ [upload_request url' token' fs] \<and>
     map_of (added_features (add_then_edit e url token la fid evs s)) fid =
       Some (getFeature la fid) \<and>
     length (filter (\<lambda>kf. fst kf = fid) (added_features (add_then_edit e url token la fid evs s)))
       = 1 \<and>
     length (filter (\<lambda>k. k = fid)
               (set_iter e (edited_features (add_then_edit e url token la fid evs s)))) = 1 \<and>
     map (\<lambda>k. tagged ''update'' (serialize_feature e l (getFeature l k)))
         (set_iter e (edited_features (add_then_edit e url token la fid evs s))) = map Inr us \<and>
     (\<exists>as. fs = us @ as \<and>
        map (\<lambda>kf. tagged ''add'' (serialize_feature e l (snd kf)))
            (added_features (add_then_edit e url token la fid evs s)) = map Inr as \<and>
        (\<exists>u \<in> set us. tagged ''update'' (serialize_feature e l (getFeature l fid)) = Inr u) \<and>
        (\<exists>a \<in> set as. tagged ''add'' (serialize_feature e l (getFeature la fid)) = Inr a))"
proof -
  let ?s1 = "sync_slot e la url token (FeatureAdded fid) s"
  let ?s2 = "add_then_edit e url token la fid evs s"
  have s2: "?s2 = deliver e url token evs ?s1"
    by (simp add: add_then_edit_def)
  from events have nostop: "\<forall>ev \<in> set evs. snd ev \<noteq> EditingStopped" by simp
  have snapshot: "map_of (added_features ?s2) fid = Some (getFeature la fid)"
    unfolding s2 deliver_snapshot [OF events] by (simp add: update_conv')
  have "distinct (map fst (added_features ?s1))"
    using keys by (simp add: distinct_update)
  then have "distinct (map fst (added_features ?s2))"
    unfolding s2 by (rule deliver_distinct [OF nostop])
  moreover have key: "(fid, getFeature la fid) \<in> set (added_features ?s2)"
    using map_of_SomeD [OF snapshot] .
  then have "fid \<in> fst ` set (added_features ?s2)" by force
  ultimately have once: "length (filter (\<lambda>kf. fst kf = fid) (added_features ?s2)) = 1"
    by (rule key_once)
  have edited: "fid \<in> edited_features ?s2"
    unfolding s2 by (rule deliver_edited_in [OF nostop edit])
  with iter have iterated: "fid \<in> set (set_iter e (edited_features ?s2))" by simp
  with iter(2) have once': "length (filter (\<lambda>k. k = fid) (set_iter e (edited_features ?s2))) = 1"
    by (rule once_in_distinct)
  from edited have changed:
    "edited_features ?s2 \<union> set (map fst (added_features ?s2)) \<noteq> {}" by auto
  have log: "http_log (sync_layer_to_server e l url' token' ?s2) =
       http_log ?s2 @ [upload_request url' token' fs]"
    by (rule sync_posted_log [OF changed ups_ok adds_ok])
  from edited_loop_entries [OF ups_ok]
  have ups: "map (\<lambda>k. tagged ''update'' (serialize_feature e l (getFeature l k)))
         (set_iter e (edited_features ?s2)) = map Inr us"
    by simp
  from added_loop_entries [OF adds_ok] obtain as where
    as: "fs = us @ as"
    "map (\<lambda>kf. tagged ''add'' (serialize_feature e l (snd kf))) (added_features ?s2) = map Inr as"
    by blast
  from iterated have "tagged ''update'' (serialize_feature e l (getFeature l fid))
      \<in> set (map (\<lambda>k. tagged ''update'' (serialize_feature e l (getFeature l k)))
                 (set_iter e (edited_features ?s2)))"
    by force
  with ups have up: "\<exists>u \<in> set us. tagged ''update'' (serialize_feature e l (getFeature l fid)) = Inr u"
    by auto
  from key have "tagged ''add'' (serialize_feature e l (getFeature la fid))
      \<in> set (map (\<lambda>kf. tagged ''add'' (serialize_feature e l (snd kf))) (added_features ?s2))"
    by force
  with as(2) have ad: "\<exists>a \<in> set as. tagged ''add'' (serialize_feature e l (getFeature la fid)) = Inr a"
    by auto
  from log snapshot once once' ups as up ad show ?thesis by blast
qed


theorem added_then_edited_is_both_witness:
  "list_all (\<lambda>ev. snd ev \<noteq> EditingStopped \<and> snd ev \<noteq> FeatureAdded 42) later_events \<and>
   list_ex (\<lambda>ev. edited_id (snd ev) = Some 42) later_events \<and>
   distinct (map fst (added_features init_viewer)) \<and>
   set_iter (world (\<lambda>rq. Inr (ok_response []))) (edited_features later_lake) = [42] \<and>
   edited_loop (world (\<lambda>rq. Inr (ok_response []))) (lakes (named_point ''Lake B''))
       (set_iter (world (\<lambda>rq. Inr (ok_response []))) (edited_features later_lake)) []
     = Inr [point_entry ''Lake B'' ''update''] \<and>
   added_loop (world (\<lambda>rq. Inr (ok_response []))) (lakes (named_point ''Lake B''))
       (added_features later_lake) [point_entry ''Lake B'' ''update'']
     = Inr [point_entry ''Lake B'' ''update'', point_entry ''Lake A'' ''add'',
            invalid_entry ''add''] \<and>
   http_log (sync_layer_to_server (world (\<lambda>rq. Inr (ok_response [])))
       (lakes (named_point ''Lake B'')) ''https://x/lakes'' ''t0k'' later_lake)
     = [upload_request ''https://x/lakes'' ''t0k''
          [point_entry ''Lake B'' ''update'', point_entry ''Lake A'' ''add'',
           invalid_entry ''add'']] \<and>
   map_of (added_features later_lake) 42 = Some (named_point ''Lake A'') \<and>
   getFeature (lakes (named_point ''Lake A'')) 42 = named_point ''Lake A'' \<and>
   getFeature (lakes (named_point ''Lake B'')) 42 = named_point ''Lake B''"
  using added_then_edited_is_both
          [where evs = later_events and fid = 42 and s = init_viewer
             and e = "world (\<lambda>rq. Inr (ok_response []))" and url = "''https://x/lakes''"
             and token = "''t0k''" and la = "lakes (named_point ''Lake A'')"
             and l = "lakes (named_point ''Lake B'')"
             and us = "[point_entry ''Lake B'' ''update'']"
             and fs = "[point_entry ''Lake B'' ''update'', point_entry ''Lake A'' ''add'',
                        invalid_entry ''add'']"
             and url' = "''https://x/lakes''" and token' = "''t0k''",
           folded later_lake_def]
  unfolding later_lake_eq
  by (simp add: later_events_def init_viewer_def world_simps getFeature_lakes
        serialize_named_point serialize_invalid_feature point_entry_def invalid_entry_def)


text \<open>
  C5 as stated fails: the identifier is not classified as added only. With 42 added as
  Lake A and renamed to Lake B, the one identifier of the diff is uploaded as two
  features, first the current feature with mode \<open>update\<close>, then the snapshot with mode
  \<open>add\<close>.
\<close>

theorem added_then_edited_uploaded_twice_counterexample:
  "map req_data (http_log
      (sync_slot (world (\<lambda>rq. Inr (ok_response []))) (lakes (named_point ''Lake B''))
         ''https://x/lakes'' ''t0k'' EditingStopped renamed_lake)) =
     [Some (PDict [(''type'', PStr ''FeatureCollection''),
                   (''features'', PList [point_entry ''Lake B'' ''update'',
                                         point_entry ''Lake A'' ''add''])])]"
  unfolding renamed_lake_eq
  by (simp add: sync_layer_to_server_def init_viewer_def world_simps getFeature_lakes
        serialize_named_point point_entry_def upload_request_def ok_response_def
        report_success_def dict_get_def push_def)




subsection \<open>Loading the registry\<close>

lemma load_entry_http_log:
  "http_log (load_entry e name cfg s) = http_log s @ [entry_request (name, cfg)]"
  by (simp add: load_entry_def entry_request_def get_geojson_hash_def
        create_layer_from_content_def connect_sync_signal_def push_def Let_def
      split: sum.split)

lemma load_loop_http_log:
  "http_log (load_loop e entries s) = http_log s @ map entry_request entries"
proof (induction entries arbitrary: s)
  case Nil
  then show ?case by simp
next
  case (Cons entry entries)
  obtain name cfg where "entry = (name, cfg)" by (cases entry)
  with Cons show ?case by (simp add: load_entry_http_log)
qed


lemma load_entry_mono:
  "set (project_layers s) \<subseteq> set (project_layers (load_entry e name cfg s)) \<and>
   set (connections s) \<subseteq> set (connections (load_entry e name cfg s))"
  by (auto simp: load_entry_def get_geojson_hash_def create_layer_from_content_def
        connect_sync_signal_def push_def Let_def
      split: sum.split)

lemma load_loop_mono:
  "set (project_layers s) \<subseteq> set (project_layers (load_loop e entries s)) \<and>
   set (connections s) \<subseteq> set (connections (load_loop e entries s))"
proof (induction entries arbitrary: s)
  case Nil
  then show ?case by simp
next
  case (Cons entry entries)
  obtain name cfg where entry: "entry = (name, cfg)" by (cases entry)
  from load_entry_mono [of s e name cfg] Cons.IH [of "load_entry e name cfg s"] entry
  show ?case by auto
qed

lemma load_entry_attach:
  assumes "http e (entry_request (name, cfg)) = Inr r"
    and "status_code r = 200"
    and "md5_hexdigest e (resp_content r) \<noteq> []"
    and "resp_content r \<noteq> []"
    and "ogr_layer e (resp_content r) = Inr l0"
    and "isValid l0"
  shows "hide_id_fields (l0\<lparr>layer_name := name\<rparr>) \<in> set (project_layers (load_entry e name cfg s)) \<and>
         (hide_id_fields (l0\<lparr>layer_name := name\<rparr>), dict_get cfg ''url'' [], dict_get cfg ''token'' [])
           \<in> set (connections (load_entry e name cfg s))"
  using assms
  by (simp add: load_entry_def entry_request_def get_geojson_hash_def
        create_layer_from_content_def connect_sync_signal_def isValid_hide_id_fields Let_def)

lemma load_loop_attach:
  assumes "(name, cfg) \<in> set entries"
    and "http e (entry_request (name, cfg)) = Inr r"
    and "status_code r = 200"
    and "md5_hexdigest e (resp_content r) \<noteq> []"
    and "resp_content r \<noteq> []"
    and "ogr_layer e (resp_content r) = Inr l0"
    and "isValid l0"
  shows "hide_id_fields (l0\<lparr>layer_name := name\<rparr>) \<in> set (project_layers (load_loop e entries s)) \<and>
         (hide_id_fields (l0\<lparr>layer_name := name\<rparr>), dict_get cfg ''url'' [], dict_get cfg ''token'' [])
           \<in> set (connections (load_loop e entries s))"
  using assms(1)
proof (induction entries arbitrary: s)
  case Nil
  then show ?case by simp
next
  case (Cons entry entries)
  obtain name' cfg' where entry: "entry = (name', cfg')" by (cases entry)
  show ?case
  proof (cases "(name, cfg) = entry")
    case True
    with entry have same: "name' = name" "cfg' = cfg" by simp_all
    from load_entry_attach [OF assms(2-7), of s]
         load_loop_mono [of "load_entry e name cfg s" e entries]
    show ?thesis unfolding entry same by auto
  next
    case False
    with Cons.prems have "(name, cfg) \<in> set entries" by simp
    from Cons.IH [OF this, of "load_entry e name' cfg' s"] entry show ?thesis by simp
  qed
qed

text \<open>
  C9. When the project has a file name and the stored registry parses, loading sends
  one fetch per entry, in the order of the entries, whatever the outcome of the others;
  and every entry whose fetch succeeds with content that decodes to a valid layer has
  its layer in the project and connected afterwards, whichever other entries failed.
\<close>

theorem load_bookmarks_attempts_every_entry:
  assumes "project_path s \<noteq> []"
    and "json_loads e (stored_bookmarks s) = Inr entries"
  shows "http_log (load_bookmarks e s) = http_log s @ map entry_request entries \<and>
         (\<forall>entry \<in> set entries. \<forall>r l0.
            http e (entry_request entry) = Inr r \<longrightarrow> status_code r = 200 \<longrightarrow>
            md5_hexdigest e (resp_content r) \<noteq> [] \<longrightarrow> resp_content r \<noteq> [] \<longrightarrow>
            ogr_layer e (resp_content r) = Inr l0 \<longrightarrow> isValid l0 \<longrightarrow>
              hide_id_fields (l0\<lparr>layer_name := fst entry\<rparr>)
                \<in> set (project_layers (load_bookmarks e s)) \<and>
              (hide_id_fields (l0\<lparr>layer_name := fst entry\<rparr>),
               dict_get (snd entry) ''url'' [], dict_get (snd entry) ''token'' [])
                \<in> set (connections (load_bookmarks e s)))"
proof -
  have lb: "load_bookmarks e s = load_loop e entries (s\<lparr>layers := entries\<rparr>)"
    using assms by (simp add: load_bookmarks_def)
  have log: "http_log (load_bookmarks e s) = http_log s @ map entry_request entries"
    by (simp add: lb load_loop_http_log)
  have attach: "hide_id_fields (l0\<lparr>layer_name := fst entry\<rparr>)
                \<in> set (project_layers (load_bookmarks e s)) \<and>
              (hide_id_fields (l0\<lparr>layer_name := fst entry\<rparr>),
               dict_get (snd entry) ''url'' [], dict_get (snd entry) ''token'' [])
                \<in> set (connections (load_bookmarks e s))"
    if "entry \<in> set entries" "http e (entry_request entry) = Inr r" "status_code r = 200"
      "md5_hexdigest e (resp_content r) \<noteq> []" "resp_content r \<noteq> []"
      "ogr_layer e (resp_content r) = Inr l0" "isValid l0" for entry r l0
  proof -
    obtain name cfg where entry: "entry = (name, cfg)" by (cases entry)
    from load_loop_attach [of name cfg entries e r l0 "s\<lparr>layers := entries\<rparr>"] that
    show ?thesis unfolding lb entry by simp
  qed
  from log attach show ?thesis by blast
qed

theorem load_bookmarks_attempts_every_entry_witness:
  "project_path saved_project \<noteq> [] \<and>
   json_loads (world flaky_net) (stored_bookmarks saved_project) =
     Inr [(''broken'', [(''url'', ''https://x/broken.json'')]),
          (''rivers'', [(''url'', ''https://x/rivers.json''), (''token'', ''t0k'')])] \<and>
   http (world flaky_net) (entry_request (''broken'', [(''url'', ''https://x/broken.json'')]))
     = Inl (RequestException ''down'') \<and>
   http (world flaky_net)
     (entry_request (''rivers'', [(''url'', ''https://x/rivers.json''), (''token'', ''t0k'')]))
     = Inr (ok_response ''v1'') \<and>
   ogr_layer (world flaky_net) (resp_content (ok_response ''v1'')) = Inr rivers \<and>
   isValid rivers \<and>
   map req_url (http_log (load_bookmarks (world flaky_net) saved_project)) =
     [''https://x/broken.json'', ''https://x/rivers.json''] \<and>
   rivers \<in> set (project_layers (load_bookmarks (world flaky_net) saved_project)) \<and>
   (rivers, ''https://x/rivers.json'', ''t0k'')
     \<in> set (connections (load_bookmarks (world flaky_net) saved_project))"
  using load_bookmarks_attempts_every_entry
          [of saved_project "world flaky_net"
              "[(''broken'', [(''url'', ''https://x/broken.json'')]),
                (''rivers'', [(''url'', ''https://x/rivers.json''), (''token'', ''t0k'')])]"]
  by (simp add: saved_project_def init_viewer_def stored_bookmarks_def world_def flaky_net_def
        entry_request_def fetch_request_def dict_get_def ok_response_def rivers_def
        hide_id_fields_def)


end
